theory Spec2Isabelle
  imports Complex_Main "HOL-Library.Word" "HOL-Library.AList"
begin

section \<open>ElectronMIDIRTC: the transport bridge (platforms/electron.js)\<close>

text \<open>
  A MIDI payload is a \<open>Uint8Array\<close>: a list of 8-bit words. Timestamps are JavaScript
  numbers that the bridge only passes on; they are modelled as reals.
\<close>

type_synonym midiData = "8 word list"

text \<open>
  A plain JavaScript object with boolean properties, such as \<open>bridgeConfig\<close>, is an
  association list from property names to values. Reading a property that is absent gives
  \<open>undefined\<close>, which is falsy: \<open>truthy\<close> is the test \<open>if (obj.key)\<close>.
\<close>

type_synonym jsObject = "(string \<times> bool) list"

definition truthy :: "jsObject \<Rightarrow> string \<Rightarrow> bool" where
  "truthy obj key = (map_of obj key = Some True)"

text \<open>
  Object spread \<open>{...base, ...over}\<close>: every property of \<open>over\<close> replaces the property
  of the same name, or is added after the existing ones.
\<close>

definition spread :: "jsObject \<Rightarrow> jsObject \<Rightarrow> jsObject" where
  "spread base over = fold (\<lambda>(k, v). AList.update k v) over base"

text \<open>
  The constructor options that concern bridging. \<open>None\<close> is an option that was not
  given (\<open>undefined\<close>); \<open>options.bridgeConfig\<close> not given is the empty object.
\<close>

record bridgeOptions =
  bridgeWebRTCtoRTPMIDI :: "bool option"
  bridgeRTPMIDItoWebRTC :: "bool option"
  bridgeUSBtoWebRTC :: "bool option"
  bridgeUSBtoRTPMIDI :: "bool option"
  opt_bridgeConfig :: jsObject

definition noOptions :: bridgeOptions where
  "noOptions = \<lparr> bridgeWebRTCtoRTPMIDI = None, bridgeRTPMIDItoWebRTC = None,
                 bridgeUSBtoWebRTC = None, bridgeUSBtoRTPMIDI = None,
                 opt_bridgeConfig = [] \<rparr>"

text \<open>The test \<open>option !== false\<close> of the constructor.\<close>

definition notFalse :: "bool option \<Rightarrow> bool" where
  "notFalse v = (v \<noteq> Some False)"

datatype rtpMidiSession = RtpMidiSession (localName: string) (port: nat)

record electronMIDIRTC =
  isRenderer :: bool
  isMain :: bool
  rtpMidiSession :: "rtpMidiSession option"
  rtpMidiEnabled :: bool
  bridgeConfig :: jsObject

text \<open>
  The constructor. \<open>renderer\<close> and \<open>electronMain\<close> are what the environment probes
  of lines 18 and 19 find.
\<close>

definition ElectronMIDIRTC :: "bool \<Rightarrow> bool \<Rightarrow> bridgeOptions \<Rightarrow> electronMIDIRTC" where
  "ElectronMIDIRTC renderer electronMain options =
     \<lparr> isRenderer = renderer,
       isMain = (\<not> renderer \<and> electronMain),
       rtpMidiSession = None,
       rtpMidiEnabled = False,
       bridgeConfig = spread
         [(''webrtcToRtpMidi'', notFalse (bridgeWebRTCtoRTPMIDI options)),
          (''rtpMidiToWebRTC'', notFalse (bridgeRTPMIDItoWebRTC options)),
          (''usbToWebRTC'', notFalse (bridgeUSBtoWebRTC options)),
          (''usbToRtpMidi'', notFalse (bridgeUSBtoRTPMIDI options))]
         (opt_bridgeConfig options) \<rparr>"

text \<open>
  What the bridge hands to a transport: a call of the inherited
  \<open>MIDIRTCConnection.sendMIDI(data, timestamp, channel)\<close>, which transmits on the WebRTC
  data channel, or a call of \<open>rtpMidiSession.sendMessage(message)\<close>.
\<close>

datatype transportCall =
    WebRTC_sendMIDI midiData real string
  | RtpMidi_sendMessage "nat list"

fun transport :: "transportCall \<Rightarrow> string" where
  "transport (WebRTC_sendMIDI d t c) = ''webrtc''"
| "transport (RtpMidi_sendMessage m) = ''rtpmidi''"

fun targetTags :: "transportCall list \<Rightarrow> string list" where
  "targetTags [] = []"
| "targetTags (WebRTC_sendMIDI d t c # xs) = c # targetTags xs"
| "targetTags (RtpMidi_sendMessage m # xs) = targetTags xs"

text \<open>
  \<open>sendMIDItoRtpMidi\<close>. Whether \<open>sendMessage\<close> throws is decided by the RTP-MIDI library:
  it is the parameter \<open>throws\<close>. The result is the returned boolean and the calls issued.
\<close>

definition sendMIDItoRtpMidi ::
  "electronMIDIRTC \<Rightarrow> bool \<Rightarrow> midiData \<Rightarrow> bool \<times> transportCall list" where
  "sendMIDItoRtpMidi e throws data =
     (if \<not> rtpMidiEnabled e \<or> rtpMidiSession e = None then (False, [])
      else let message = map unat data
           in if throws then (False, [RtpMidi_sendMessage message])
              else (True, [RtpMidi_sendMessage message]))"

text \<open>
  \<open>sendMIDI(data, timestamp, channelOrSource = 'default')\<close>. The third argument is
  \<open>None\<close> when the caller leaves it out. The three local constants of lines 354 to 356
  are definitions of their own.
\<close>

definition isSource :: "string \<Rightarrow> bool" where
  "isSource channelOrSource = (channelOrSource \<in> set [''usb'', ''rtpmidi'', ''webrtc''])"

definition channel :: "string \<Rightarrow> string" where
  "channel channelOrSource = (if isSource channelOrSource then ''default'' else channelOrSource)"

definition source :: "string \<Rightarrow> string" where
  "source channelOrSource = (if isSource channelOrSource then channelOrSource else ''usb'')"

definition defaultArg :: "string option \<Rightarrow> string" where
  "defaultArg a = (case a of None \<Rightarrow> ''default'' | Some s \<Rightarrow> s)"

definition Electron_sendMIDI ::
  "electronMIDIRTC \<Rightarrow> bool \<Rightarrow> midiData \<Rightarrow> real \<Rightarrow> string option \<Rightarrow> transportCall list" where
  "Electron_sendMIDI e throws data timestamp arg =
     (let channelOrSource = defaultArg arg;
          viaWebRTC =
            (if source channelOrSource \<noteq> ''webrtc'' then
               (let shouldSendToWebRTC =
                      (source channelOrSource = ''usb'' \<and> truthy (bridgeConfig e) ''usbToWebRTC'') \<or>
                      (source channelOrSource = ''rtpmidi'' \<and> truthy (bridgeConfig e) ''rtpMidiToWebRTC'')
                in if shouldSendToWebRTC
                   then [WebRTC_sendMIDI data timestamp (channel channelOrSource)]
                   else [])
             else []);
          viaRtpMidi =
            (if isMain e \<and> rtpMidiEnabled e \<and> source channelOrSource \<noteq> ''rtpmidi'' then
               (let shouldSendToRtpMidi =
                      (source channelOrSource = ''usb'' \<and> truthy (bridgeConfig e) ''usbToRtpMidi'') \<or>
                      (source channelOrSource = ''webrtc'' \<and> truthy (bridgeConfig e) ''webrtcToRtpMidi'')
                in if shouldSendToRtpMidi
                   then snd (sendMIDItoRtpMidi e throws data)
                   else [])
             else [])
      in viaWebRTC @ viaRtpMidi)"

section \<open>WebRTCMIDIManager (webrtc-midi-manager.js)\<close>

text \<open>
  A JavaScript \<open>Map\<close> keeps its entries in insertion order and \<open>set\<close> on a key that is
  present replaces the value where it stands: an association list with
  \<^const>\<open>AList.update\<close>.
\<close>

definition Map_has :: "'k \<Rightarrow> ('k \<times> 'v) list \<Rightarrow> bool" where
  "Map_has k m = (map_of m k \<noteq> None)"

definition Map_get :: "'k \<Rightarrow> ('k \<times> 'v) list \<Rightarrow> 'v option" where
  "Map_get k m = map_of m k"

definition Map_set :: "'k \<Rightarrow> 'v \<Rightarrow> ('k \<times> 'v) list \<Rightarrow> ('k \<times> 'v) list" where
  "Map_set k v m = AList.update k v m"

definition Map_values :: "('k \<times> 'v) list \<Rightarrow> 'v list" where
  "Map_values m = map snd m"

definition Map_keys :: "('k \<times> 'v) list \<Rightarrow> 'k list" where
  "Map_keys m = map fst m"

text \<open>A callback function assigned by the host is known by a number.\<close>

type_synonym handler = nat

record virtualInput =
  vi_id :: string
  vi_name :: string
  vi_manufacturer :: string
  vi_type :: string
  vi_state :: string
  vi_connection :: string
  vi_target :: string
  onmidimessage :: "handler option"

definition addEventListener :: "string \<Rightarrow> handler \<Rightarrow> virtualInput \<Rightarrow> virtualInput" where
  "addEventListener event h dev =
     (if event = ''midimessage'' then dev\<lparr> onmidimessage := Some h \<rparr> else dev)"

definition removeEventListener :: "string \<Rightarrow> handler \<Rightarrow> virtualInput \<Rightarrow> virtualInput" where
  "removeEventListener event h dev =
     (if event = ''midimessage'' then dev\<lparr> onmidimessage := None \<rparr> else dev)"

record virtualOutput =
  vo_id :: string
  vo_name :: string
  vo_manufacturer :: string
  vo_type :: string
  vo_state :: string
  vo_connection :: string
  vo_target :: string

record midiMessage =
  msg_data :: midiData
  msg_timestamp :: real
  msg_target :: string
  msg_latency :: real

text \<open>
  The counters are JavaScript numbers that only ever grow by whole amounts; they are
  modelled as naturals (a double is exact on them below \<open>2 ^ 53\<close>).
\<close>

record stats =
  messagesReceived :: nat
  bytesReceived :: nat
  latency :: real

text \<open>
  The \<open>BrowserMIDIRTC\<close> connection as the manager sees it: what \<open>isConnected()\<close>
  answers and the envelopes handed to its \<open>sendMIDI\<close>.
\<close>

record connection =
  conn_isConnected :: bool
  conn_sent :: "(midiData \<times> real \<times> string) list"

text \<open>
  Modelled from the spec: \<open>MIDIRTCConnection.sendMIDI\<close>, the transmit path of the base
  connection (core/connection.js is not among the sources). Section 7 has send failures
  absorbed inside the core, so the call returns to its caller; section 3 has the envelope
  carry payload, send timestamp and target.
\<close>

definition connection_sendMIDI :: "midiData \<Rightarrow> real \<Rightarrow> string \<Rightarrow> connection \<Rightarrow> connection" where
  "connection_sendMIDI data timestamp target c =
     c\<lparr> conn_sent := conn_sent c @ [(data, timestamp, target)] \<rparr>"

text \<open>
  Modelled from the spec: \<open>MIDIRTCConnection.close\<close> (core/connection.js is not among
  the sources). Section 4.1: close is synchronous, the state becomes \<open>closed\<close>, and no
  callback fires afterwards. These are the states it reports to
  \<open>onConnectionStateChange\<close> before it returns.
\<close>

definition closeReports :: "string list" where
  "closeReports = [''closed'']"

text \<open>The host callbacks the manager invokes, in the order of the calls.\<close>

datatype callback =
    Device_onmidimessage handler midiData real string
  | Manager_onMIDIMessage handler midiData real string real
  | Manager_onConnectionStateChange handler string
  | Manager_onTargetDiscovered handler string virtualInput

record manager =
  connection :: "connection option"
  virtualInputs :: "(string \<times> virtualInput) list"
  virtualOutputs :: "(string \<times> virtualOutput) list"
  isConnected :: bool
  connectionState :: string
  onMIDIMessage :: "handler option"
  onConnectionStateChange :: "handler option"
  onTargetDiscovered :: "handler option"
  stats :: stats
  calls :: "callback list"

text \<open>The constructor; \<open>calls\<close> starts empty as nothing has been called back yet.\<close>

definition WebRTCMIDIManager :: manager where
  "WebRTCMIDIManager =
     \<lparr> connection = None, virtualInputs = [], virtualOutputs = [],
       isConnected = False, connectionState = ''disconnected'',
       onMIDIMessage = None, onConnectionStateChange = None, onTargetDiscovered = None,
       stats = \<lparr> messagesReceived = 0, bytesReceived = 0, latency = 0 \<rparr>,
       calls = [] \<rparr>"

definition initialize :: "manager \<Rightarrow> manager" where
  "initialize s = s\<lparr> connection := Some \<lparr> conn_isConnected = False, conn_sent = [] \<rparr> \<rparr>"

definition createVirtualInput :: "string \<Rightarrow> manager \<Rightarrow> virtualInput \<times> manager" where
  "createVirtualInput target s =
     (let virtualInput =
            \<lparr> vi_id = ''webrtc-midi-'' @ target,
              vi_name = ''WebRTC MIDI ('' @ target @ '')'',
              vi_manufacturer = ''WebRTC'',
              vi_type = ''input'',
              vi_state = ''connected'',
              vi_connection = ''open'',
              vi_target = target,
              onmidimessage = None \<rparr>;
          s1 = s\<lparr> virtualInputs := Map_set target virtualInput (virtualInputs s) \<rparr>;
          s2 = (case onTargetDiscovered s1 of
                  Some h \<Rightarrow> s1\<lparr> calls := calls s1 @ [Manager_onTargetDiscovered h target virtualInput] \<rparr>
                | None \<Rightarrow> s1)
      in (virtualInput, s2))"

definition getVirtualInput :: "string \<Rightarrow> manager \<Rightarrow> virtualInput option" where
  "getVirtualInput target s = Map_get target (virtualInputs s)"

definition getVirtualInputs :: "manager \<Rightarrow> virtualInput list" where
  "getVirtualInputs s = Map_values (virtualInputs s)"

text \<open>
  \<open>handleMIDIMessage\<close>, one definition for each of its four blocks: the statistics
  (lines 76 to 78), the virtual input of the target (lines 81 to 83), the handler of that
  virtual input (lines 86 to 95) and the handler of the manager (lines 98 to 105).
\<close>

definition countMessage :: "midiMessage \<Rightarrow> manager \<Rightarrow> manager" where
  "countMessage message s =
     s\<lparr> stats := \<lparr> messagesReceived = messagesReceived (stats s) + 1,
                    bytesReceived = bytesReceived (stats s) + length (msg_data message),
                    latency = msg_latency message \<rparr> \<rparr>"

definition ensureVirtualInput :: "midiMessage \<Rightarrow> manager \<Rightarrow> manager" where
  "ensureVirtualInput message s =
     (if \<not> Map_has (msg_target message) (virtualInputs s)
      then snd (createVirtualInput (msg_target message) s) else s)"

definition triggerVirtualInput :: "midiMessage \<Rightarrow> manager \<Rightarrow> manager" where
  "triggerVirtualInput message s =
     (case Map_get (msg_target message) (virtualInputs s) of
        Some virtualInput \<Rightarrow>
          (case onmidimessage virtualInput of
             Some h \<Rightarrow> s\<lparr> calls := calls s @
                 [Device_onmidimessage h (msg_data message) (msg_timestamp message) (msg_target message)] \<rparr>
           | None \<Rightarrow> s)
      | None \<Rightarrow> s)"

definition callGlobalHandler :: "midiMessage \<Rightarrow> manager \<Rightarrow> manager" where
  "callGlobalHandler message s =
     (case onMIDIMessage s of
        Some h \<Rightarrow> s\<lparr> calls := calls s @
            [Manager_onMIDIMessage h (msg_data message) (msg_timestamp message)
               (msg_target message) (msg_latency message)] \<rparr>
      | None \<Rightarrow> s)"

definition handleMIDIMessage :: "midiMessage \<Rightarrow> manager \<Rightarrow> manager" where
  "handleMIDIMessage message s =
     callGlobalHandler message
       (triggerVirtualInput message
          (ensureVirtualInput message
             (countMessage message s)))"

definition createVirtualOutput :: "string \<Rightarrow> manager \<Rightarrow> virtualOutput \<times> manager" where
  "createVirtualOutput target s =
     (let virtualOutput =
            \<lparr> vo_id = ''webrtc-midi-out-'' @ target,
              vo_name = ''WebRTC MIDI Out ('' @ target @ '')'',
              vo_manufacturer = ''WebRTC'',
              vo_type = ''output'',
              vo_state = ''connected'',
              vo_connection = ''open'',
              vo_target = target \<rparr>
      in (virtualOutput, s\<lparr> virtualOutputs := Map_set target virtualOutput (virtualOutputs s) \<rparr>))"

text \<open>
  The \<open>data\<close> argument of \<open>sendMIDI\<close> is a \<open>Uint8Array\<close> or a plain array of numbers;
  \<open>new Uint8Array(array)\<close> reduces each number modulo 256.
\<close>

datatype jsData = Uint8Array midiData | Array "int list"

fun toUint8Array :: "jsData \<Rightarrow> midiData" where
  "toUint8Array (Uint8Array d) = d"
| "toUint8Array (Array ns) = map word_of_int ns"

text \<open>
  \<open>sendMIDI(data, timestamp, target = 'default')\<close>. \<open>now\<close> is what
  \<open>performance.now()\<close> would answer; a timestamp left out or equal to 0 is falsy.
\<close>

definition Manager_sendMIDI ::
  "real \<Rightarrow> jsData \<Rightarrow> real option \<Rightarrow> string option \<Rightarrow> manager \<Rightarrow> bool \<times> manager" where
  "Manager_sendMIDI now data timestamp arg s =
     (let target = defaultArg arg in
      case connection s of
        None \<Rightarrow> (False, s)
      | Some c \<Rightarrow>
          if \<not> conn_isConnected c then (False, s)
          else let midiData = toUint8Array data;
                   ts = (case timestamp of None \<Rightarrow> now | Some t \<Rightarrow> if t = 0 then now else t)
               in (True, s\<lparr> connection := Some (connection_sendMIDI midiData ts target c) \<rparr>))"

definition getVirtualOutput :: "string \<Rightarrow> manager \<Rightarrow> virtualOutput option" where
  "getVirtualOutput target s = Map_get target (virtualOutputs s)"

definition getVirtualOutputs :: "manager \<Rightarrow> virtualOutput list" where
  "getVirtualOutputs s = Map_values (virtualOutputs s)"

definition defaultTargets :: "string list" where
  "defaultTargets = [''default'', ''synth'', ''control'', ''feedback'']"

definition handleConnectionStateChange :: "string \<Rightarrow> manager \<Rightarrow> manager" where
  "handleConnectionStateChange state s =
     (let s1 = s\<lparr> connectionState := state, isConnected := (state = ''connected'') \<rparr>;
          s2 = (case onConnectionStateChange s1 of
                  Some h \<Rightarrow> s1\<lparr> calls := calls s1 @ [Manager_onConnectionStateChange h state] \<rparr>
                | None \<Rightarrow> s1);
          s3 = (if state = ''connected''
                then fold (\<lambda>target s'. snd (createVirtualOutput target s')) defaultTargets s2
                else s2);
          s4 = (if state = ''disconnected'' \<or> state = ''failed''
                then s3\<lparr> virtualInputs := [], virtualOutputs := [] \<rparr>
                else s3)
      in s4)"

text \<open>
  \<open>disconnect()\<close>. \<open>reports\<close> are the states that \<open>connection.close()\<close> passes to
  \<open>onConnectionStateChange\<close>, which \<open>initialize\<close> wired to
  \<open>handleConnectionStateChange\<close>, before it returns.
\<close>

definition disconnect :: "string list \<Rightarrow> manager \<Rightarrow> manager" where
  "disconnect reports s =
     (let s1 = (case connection s of
                  Some c \<Rightarrow> (fold handleConnectionStateChange reports s)\<lparr> connection := None \<rparr>
                | None \<Rightarrow> s)
      in s1\<lparr> virtualInputs := [], isConnected := False, connectionState := ''disconnected'' \<rparr>)"

text \<open>
  Everything that can happen to a manager: its methods, the host assigning the three
  callback fields or a listener on the virtual input of a target, and the data channel
  opening or closing underneath (\<open>ChannelState\<close>).
\<close>

datatype operation =
    Initialize
  | HandleMIDIMessage midiMessage
  | HandleConnectionStateChange string
  | CreateVirtualInput string
  | SendMIDI real jsData "real option" "string option"
  | Disconnect "string list"
  | AssignCallbacks "handler option" "handler option" "handler option"
  | AddEventListener string string handler
  | RemoveEventListener string string handler
  | ChannelState bool

fun step :: "operation \<Rightarrow> manager \<Rightarrow> manager" where
  "step Initialize s = initialize s"
| "step (HandleMIDIMessage m) s = handleMIDIMessage m s"
| "step (HandleConnectionStateChange state) s = handleConnectionStateChange state s"
| "step (CreateVirtualInput target) s = snd (createVirtualInput target s)"
| "step (SendMIDI now data timestamp arg) s = snd (Manager_sendMIDI now data timestamp arg s)"
| "step (Disconnect reports) s = disconnect reports s"
| "step (AssignCallbacks m c t) s =
     s\<lparr> onMIDIMessage := m, onConnectionStateChange := c, onTargetDiscovered := t \<rparr>"
| "step (AddEventListener target event h) s =
     (case getVirtualInput target s of
        Some dev \<Rightarrow> s\<lparr> virtualInputs := Map_set target (addEventListener event h dev) (virtualInputs s) \<rparr>
      | None \<Rightarrow> s)"
| "step (RemoveEventListener target event h) s =
     (case getVirtualInput target s of
        Some dev \<Rightarrow> s\<lparr> virtualInputs := Map_set target (removeEventListener event h dev) (virtualInputs s) \<rparr>
      | None \<Rightarrow> s)"
| "step (ChannelState b) s =
     (case connection s of
        Some c \<Rightarrow> s\<lparr> connection := Some (c\<lparr> conn_isConnected := b \<rparr>) \<rparr>
      | None \<Rightarrow> s)"

definition run :: "operation list \<Rightarrow> manager \<Rightarrow> manager" where
  "run ops s = fold step ops s"

text \<open>Observations used to state the properties.\<close>

fun discovered :: "string \<Rightarrow> callback list \<Rightarrow> nat" where
  "discovered t [] = 0"
| "discovered t (Manager_onTargetDiscovered h t' dev # cs) =
     (if t' = t then 1 else 0) + discovered t cs"
| "discovered t (c # cs) = discovered t cs"


fun messagesOf :: "operation list \<Rightarrow> midiMessage list" where
  "messagesOf [] = []"
| "messagesOf (HandleMIDIMessage m # ops) = m # messagesOf ops"
| "messagesOf (other # ops) = messagesOf ops"

text \<open>
  The device that \<open>createVirtualInput\<close> and \<open>createVirtualOutput\<close> build for a target
  does not depend on the manager: these are the object literals of lines 114 and 168.
\<close>

definition newInput :: "string \<Rightarrow> virtualInput" where
  "newInput target = fst (createVirtualInput target WebRTCMIDIManager)"

definition newOutput :: "string \<Rightarrow> virtualOutput" where
  "newOutput target = fst (createVirtualOutput target WebRTCMIDIManager)"

definition connectedOutputs :: "(string \<times> virtualOutput) list" where
  "connectedOutputs = map (\<lambda>t. (t, newOutput t)) defaultTargets"

text \<open>The registry of outputs is empty or holds the outputs made on connecting.\<close>

definition outputsInv :: "manager \<Rightarrow> bool" where
  "outputsInv s = (virtualOutputs s = [] \<or> virtualOutputs s = connectedOutputs)"

subsection \<open>Concrete bridges and managers\<close>

text \<open>
  A bridge in the main process with an RTP-MIDI session, built with
  \<open>bridgeUSBtoRTPMIDI: false\<close>.
\<close>

definition usbToWebRTCBridge :: electronMIDIRTC where
  "usbToWebRTCBridge =
     (ElectronMIDIRTC False True (noOptions\<lparr> bridgeUSBtoRTPMIDI := Some False \<rparr>))
       \<lparr> rtpMidiSession := Some (RtpMidiSession ''MIDI-RTC'' 5004), rtpMidiEnabled := True \<rparr>"

text \<open>The same with every edge at its default.\<close>

definition defaultBridge :: electronMIDIRTC where
  "defaultBridge =
     (ElectronMIDIRTC False True noOptions)
       \<lparr> rtpMidiSession := Some (RtpMidiSession ''MIDI-RTC'' 5004), rtpMidiEnabled := True \<rparr>"

definition noteOn :: midiData where
  "noteOn = [0x90, 0x3C, 0x7F]"

text \<open>A manager that was initialised and whose connection reached \<open>connected\<close>.\<close>

definition connectedManager :: manager where
  "connectedManager =
     run [Initialize, ChannelState True, HandleConnectionStateChange ''connected''] WebRTCMIDIManager"

text \<open>
  A manager with a discovery listener, on which \<open>createVirtualInput('synth')\<close> was
  called once and the host then attached a message listener to that device.
\<close>

definition listeningManager :: manager where
  "listeningManager =
     run [AssignCallbacks None None (Some 1), CreateVirtualInput ''synth'',
          AddEventListener ''synth'' ''midimessage'' 7] WebRTCMIDIManager"


definition inbound :: "midiMessage list" where
  "inbound =
     [\<lparr> msg_data = [0x90, 0x3C, 0x7F], msg_timestamp = 1, msg_target = ''synth'', msg_latency = 2 \<rparr>,
      \<lparr> msg_data = [0xB0, 0x07, 0x64], msg_timestamp = 3, msg_target = ''control'', msg_latency = 1 \<rparr>,
      \<lparr> msg_data = [0x80, 0x3C, 0x00], msg_timestamp = 5, msg_target = ''synth'', msg_latency = 4 \<rparr>]"

section \<open>Properties of the transport bridge\<close>

lemma map_of_spread: "map_of (spread base over) = map_of base ++ map_of (rev over)"
  unfolding spread_def
proof (induction over arbitrary: base)
  case Nil
  show ?case by simp
next
  case (Cons p over)
  obtain k v where p: "p = (k, v)" by (cases p)
  show ?case
    by (simp add: p Cons.IH update_conv' fun_eq_iff map_add_def split: option.splits)
qed

text \<open>
  Claim C1. Whatever the bridge configuration, the process, the RTP-MIDI session and
  the payload, \<open>sendMIDI\<close> issues no call on the transport the message came from: none on
  the WebRTC channel for origin \<open>webrtc\<close>, none on the RTP-MIDI session for origin
  \<open>rtpmidi\<close>, and in general none on the transport named by \<open>source\<close>.
\<close>

theorem sendMIDI_never_to_origin:
  "filter (\<lambda>x. transport x = ''webrtc'') (Electron_sendMIDI e throws d t (Some ''webrtc'')) = [] \<and>
   filter (\<lambda>x. transport x = ''rtpmidi'') (Electron_sendMIDI e throws d t (Some ''rtpmidi'')) = [] \<and>
   filter (\<lambda>x. transport x = source (defaultArg arg)) (Electron_sendMIDI e throws d t arg) = []"
  by (simp add: Electron_sendMIDI_def Let_def source_def isSource_def defaultArg_def
        sendMIDItoRtpMidi_def)

theorem sendMIDI_never_to_origin_witness:
  "Electron_sendMIDI defaultBridge False noteOn 12.5 (Some ''webrtc'') = [RtpMidi_sendMessage [144, 60, 127]] \<and>
   filter (\<lambda>x. transport x = ''webrtc'') (Electron_sendMIDI defaultBridge False noteOn 12.5 (Some ''webrtc'')) = []"
proof -
  have "Electron_sendMIDI defaultBridge False noteOn 12.5 (Some ''webrtc'') = [RtpMidi_sendMessage [144, 60, 127]]"
    by (simp add: Electron_sendMIDI_def Let_def source_def channel_def isSource_def defaultArg_def
          defaultBridge_def ElectronMIDIRTC_def noOptions_def spread_def truthy_def notFalse_def
          sendMIDItoRtpMidi_def noteOn_def)
  then show ?thesis
    using sendMIDI_never_to_origin [of defaultBridge False noteOn "12.5"] by simp
qed

text \<open>
  Claim C6, as amended. The constructor builds four edges, none of which has the hardware
  transport as destination: \<open>webrtcToRtpMidi\<close>, \<open>rtpMidiToWebRTC\<close>, \<open>usbToWebRTC\<close> and
  \<open>usbToRtpMidi\<close>. Each is true unless its own option is \<open>false\<close>, and
  \<open>options.bridgeConfig\<close> overrides property by property; with no options all four are
  true.
\<close>

theorem bridgeConfig_four_edges:
  "map_of (bridgeConfig (ElectronMIDIRTC r m options)) =
     map_of [(''webrtcToRtpMidi'', bridgeWebRTCtoRTPMIDI options \<noteq> Some False),
             (''rtpMidiToWebRTC'', bridgeRTPMIDItoWebRTC options \<noteq> Some False),
             (''usbToWebRTC'', bridgeUSBtoWebRTC options \<noteq> Some False),
             (''usbToRtpMidi'', bridgeUSBtoRTPMIDI options \<noteq> Some False)]
       ++ map_of (rev (opt_bridgeConfig options)) \<and>
   bridgeConfig (ElectronMIDIRTC r m noOptions) =
     [(''webrtcToRtpMidi'', True), (''rtpMidiToWebRTC'', True),
      (''usbToWebRTC'', True), (''usbToRtpMidi'', True)]"
  by (simp add: ElectronMIDIRTC_def map_of_spread notFalse_def noOptions_def)
     (simp add: spread_def)

text \<open>
  With no options the configuration has four properties, not six, and the two edges
  towards the hardware transport read as \<open>undefined\<close>.
\<close>

theorem bridgeConfig_not_six_edges:
  "map fst (bridgeConfig (ElectronMIDIRTC False True noOptions)) =
     [''webrtcToRtpMidi'', ''rtpMidiToWebRTC'', ''usbToWebRTC'', ''usbToRtpMidi''] \<and>
   length (bridgeConfig (ElectronMIDIRTC False True noOptions)) \<noteq> 6 \<and>
   \<not> truthy (bridgeConfig (ElectronMIDIRTC False True noOptions)) ''webrtcToUSB'' \<and>
   \<not> truthy (bridgeConfig (ElectronMIDIRTC False True noOptions)) ''rtpMidiToUSB''"
  by (simp add: ElectronMIDIRTC_def noOptions_def spread_def truthy_def notFalse_def)

text \<open>
  Claim C7, as amended. With \<open>usbToWebRTC\<close> true and \<open>usbToRtpMidi\<close> not, a message
  whose origin is the hardware transport (any third argument other than the tags
  \<open>rtpmidi\<close> and \<open>webrtc\<close>, line 356) leads to exactly one call, on the WebRTC channel,
  with the payload and the timestamp as given; nothing goes to the RTP-MIDI session. The
  target of that call is \<open>default\<close> when the third argument is the tag \<open>usb\<close> or is left
  out, and is the third argument itself otherwise: the virtual channel that the hardware
  listener of lines 151 to 155 passes on.
\<close>

theorem usb_to_webrtc_only:
  assumes "truthy (bridgeConfig e) ''usbToWebRTC''"
    and "\<not> truthy (bridgeConfig e) ''usbToRtpMidi''"
    and "arg \<noteq> Some ''rtpmidi''"
    and "arg \<noteq> Some ''webrtc''"
  shows "source (defaultArg arg) = ''usb'' \<and>
         Electron_sendMIDI e throws data timestamp arg =
           [WebRTC_sendMIDI data timestamp
              (case arg of None \<Rightarrow> ''default''
               | Some c \<Rightarrow> if c = ''usb'' then ''default'' else c)]"
  using assms
  by (cases arg)
     (auto simp add: Electron_sendMIDI_def Let_def source_def channel_def isSource_def
        defaultArg_def)

theorem usb_to_webrtc_only_witness:
  "truthy (bridgeConfig usbToWebRTCBridge) ''usbToWebRTC'' \<and>
   \<not> truthy (bridgeConfig usbToWebRTCBridge) ''usbToRtpMidi'' \<and>
   isMain usbToWebRTCBridge \<and> rtpMidiEnabled usbToWebRTCBridge \<and>
   Electron_sendMIDI usbToWebRTCBridge False noteOn 12.5 (Some ''usb'') =
     [WebRTC_sendMIDI [0x90, 0x3C, 0x7F] 12.5 ''default''] \<and>
   Electron_sendMIDI usbToWebRTCBridge False noteOn 12.5 None =
     [WebRTC_sendMIDI [0x90, 0x3C, 0x7F] 12.5 ''default''] \<and>
   Electron_sendMIDI usbToWebRTCBridge False noteOn 12.5 (Some ''control'') =
     [WebRTC_sendMIDI [0x90, 0x3C, 0x7F] 12.5 ''control'']"
proof -
  have a: "truthy (bridgeConfig usbToWebRTCBridge) ''usbToWebRTC''"
    by (simp add: usbToWebRTCBridge_def ElectronMIDIRTC_def noOptions_def spread_def truthy_def
          notFalse_def)
  have b: "\<not> truthy (bridgeConfig usbToWebRTCBridge) ''usbToRtpMidi''"
    by (simp add: usbToWebRTCBridge_def ElectronMIDIRTC_def noOptions_def spread_def truthy_def
          notFalse_def)
  have c: "isMain usbToWebRTCBridge \<and> rtpMidiEnabled usbToWebRTCBridge"
    by (simp add: usbToWebRTCBridge_def ElectronMIDIRTC_def)
  show ?thesis
    using a b c
      usb_to_webrtc_only [OF a b, of "Some ''usb''" False noteOn "12.5"]
      usb_to_webrtc_only [OF a b, of None False noteOn "12.5"]
      usb_to_webrtc_only [OF a b, of "Some ''control''" False noteOn "12.5"]
    by (simp add: noteOn_def)
qed

text \<open>
  A hardware message from a device that \<open>getChannelForDevice\<close> maps to the channel
  \<open>synth\<close> (line 330), on a bridge with \<open>usbToWebRTC\<close> true and \<open>usbToRtpMidi\<close> false:
  its origin is \<open>usb\<close>, it is sent once over the WebRTC channel and not to RTP-MIDI, but
  the target is \<open>synth\<close>, not \<open>default\<close>.
\<close>

theorem usb_target_not_always_default:
  "truthy (bridgeConfig usbToWebRTCBridge) ''usbToWebRTC'' \<and>
   \<not> truthy (bridgeConfig usbToWebRTCBridge) ''usbToRtpMidi'' \<and>
   source (defaultArg (Some ''synth'')) = ''usb'' \<and>
   Electron_sendMIDI usbToWebRTCBridge False noteOn 12.5 (Some ''synth'') =
     [WebRTC_sendMIDI [0x90, 0x3C, 0x7F] 12.5 ''synth''] \<and>
   Electron_sendMIDI usbToWebRTCBridge False noteOn 12.5 (Some ''synth'') \<noteq>
     [WebRTC_sendMIDI [0x90, 0x3C, 0x7F] 12.5 ''default'']"
  by (simp add: Electron_sendMIDI_def Let_def source_def channel_def isSource_def defaultArg_def
        usbToWebRTCBridge_def ElectronMIDIRTC_def noOptions_def spread_def truthy_def
        notFalse_def noteOn_def)

text \<open>
  Claim C10. The third argument of \<open>sendMIDI\<close> is read as an origin tag when it is
  \<open>usb\<close>, \<open>rtpmidi\<close> or \<open>webrtc\<close>: the target is then \<open>default\<close>, and the only target
  tag any call can carry is \<open>default\<close>, never the string passed. Every other string is
  read as the target, with origin \<open>usb\<close>.
\<close>

theorem sendMIDI_origin_tags:
  assumes "c \<in> {''usb'', ''rtpmidi'', ''webrtc''}"
    and "c' \<notin> {''usb'', ''rtpmidi'', ''webrtc''}"
  shows "channel c = ''default'' \<and> source c = c \<and>
         set (targetTags (Electron_sendMIDI e throws data timestamp (Some c))) \<subseteq> {''default''} \<and>
         c \<notin> set (targetTags (Electron_sendMIDI e throws data timestamp (Some c))) \<and>
         channel c' = c' \<and> source c' = ''usb'' \<and>
         set (targetTags (Electron_sendMIDI e throws data timestamp (Some c'))) \<subseteq> {c'}"
  using assms
  by (auto simp add: Electron_sendMIDI_def Let_def source_def channel_def isSource_def
        defaultArg_def sendMIDItoRtpMidi_def)

theorem sendMIDI_origin_tags_witness:
  "''rtpmidi'' \<in> {''usb'', ''rtpmidi'', ''webrtc''} \<and> ''synth'' \<notin> {''usb'', ''rtpmidi'', ''webrtc''} \<and>
   targetTags (Electron_sendMIDI defaultBridge False noteOn 12.5 (Some ''rtpmidi'')) = [''default''] \<and>
   targetTags (Electron_sendMIDI defaultBridge False noteOn 12.5 (Some ''synth'')) = [''synth''] \<and>
   channel ''rtpmidi'' = ''default'' \<and> source ''synth'' = ''usb''"
proof -
  have a: "''rtpmidi'' \<in> {''usb'', ''rtpmidi'', ''webrtc''}" by simp
  have b: "''synth'' \<notin> {''usb'', ''rtpmidi'', ''webrtc''}" by simp
  have c: "targetTags (Electron_sendMIDI defaultBridge False noteOn 12.5 (Some ''rtpmidi'')) = [''default'']"
    by (simp add: Electron_sendMIDI_def Let_def source_def channel_def isSource_def defaultArg_def
          defaultBridge_def ElectronMIDIRTC_def noOptions_def spread_def truthy_def notFalse_def)
  have d: "targetTags (Electron_sendMIDI defaultBridge False noteOn 12.5 (Some ''synth'')) = [''synth'']"
    by (simp add: Electron_sendMIDI_def Let_def source_def channel_def isSource_def defaultArg_def
          defaultBridge_def ElectronMIDIRTC_def noOptions_def spread_def truthy_def notFalse_def
          sendMIDItoRtpMidi_def)
  show ?thesis
    using a b c d sendMIDI_origin_tags [OF a b, of defaultBridge False noteOn "12.5"]
    by simp
qed

section \<open>Properties of the manager\<close>

subsection \<open>The registry of virtual inputs\<close>



lemma Map_has_keys: "Map_has k m = (k \<in> set (Map_keys m))"
  by (simp add: Map_has_def Map_keys_def map_of_eq_None_iff)


lemma createVirtualInput_fst: "fst (createVirtualInput target s) = newInput target"
  by (simp add: createVirtualInput_def newInput_def Let_def)

lemma createVirtualInput_inputs:
  "virtualInputs (snd (createVirtualInput target s)) =
     Map_set target (newInput target) (virtualInputs s)"
  by (simp add: createVirtualInput_def newInput_def Let_def split: option.splits)

lemma createVirtualInput_calls:
  "calls (snd (createVirtualInput target s)) =
     calls s @ (case onTargetDiscovered s of
                  Some h \<Rightarrow> [Manager_onTargetDiscovered h target (newInput target)]
                | None \<Rightarrow> [])"
  by (simp add: createVirtualInput_def newInput_def Let_def split: option.splits)

lemma createVirtualInput_listener:
  "onTargetDiscovered (snd (createVirtualInput target s)) = onTargetDiscovered s"
  by (simp add: createVirtualInput_def Let_def split: option.splits)










text \<open>
  Claim C5, as amended. Every call of \<open>createVirtualInput(target)\<close> builds a new device
  without a message handler, stores it under the target, calls the discovery listener
  once if there is one, and returns the new device. When the target was registered the
  new device takes the place of the old one, so the targets of the registry and their
  order stay as they were; the inputs of other targets are not touched.
\<close>

theorem createVirtualInput_replaces:
  "getVirtualInput target (snd (createVirtualInput target s)) =
     Some (fst (createVirtualInput target s)) \<and>
   onmidimessage (fst (createVirtualInput target s)) = None \<and>
   vi_target (fst (createVirtualInput target s)) = target \<and>
   Map_keys (virtualInputs (snd (createVirtualInput target s))) =
     (if Map_has target (virtualInputs s) then Map_keys (virtualInputs s)
      else Map_keys (virtualInputs s) @ [target]) \<and>
   calls (snd (createVirtualInput target s)) =
     calls s @ (case onTargetDiscovered s of
                  Some h \<Rightarrow> [Manager_onTargetDiscovered h target (fst (createVirtualInput target s))]
                | None \<Rightarrow> []) \<and>
   (\<forall>t. t \<noteq> target \<longrightarrow>
        getVirtualInput t (snd (createVirtualInput target s)) = getVirtualInput t s)"
  by (simp add: createVirtualInput_inputs createVirtualInput_calls createVirtualInput_fst
        getVirtualInput_def Map_get_def Map_set_def update_conv' Map_has_keys Map_keys_def
        update_keys split: option.splits)
     (simp add: newInput_def createVirtualInput_def Let_def)

lemma listeningManager_eval:
  "virtualInputs listeningManager = [(''synth'', (newInput ''synth'')\<lparr> onmidimessage := Some 7 \<rparr>)]"
  "calls listeningManager = [Manager_onTargetDiscovered 1 ''synth'' (newInput ''synth'')]"
  "onTargetDiscovered listeningManager = Some 1"
  by (simp_all add: listeningManager_def run_def WebRTCMIDIManager_def createVirtualInput_inputs
        createVirtualInput_calls createVirtualInput_listener getVirtualInput_def Map_get_def
        Map_set_def addEventListener_def)

theorem createVirtualInput_replaces_witness:
  "Map_has ''synth'' (virtualInputs listeningManager) \<and>
   Map_keys (virtualInputs (snd (createVirtualInput ''synth'' listeningManager))) = [''synth''] \<and>
   ''control'' \<noteq> ''synth'' \<and>
   getVirtualInput ''control'' (snd (createVirtualInput ''synth'' listeningManager)) =
     getVirtualInput ''control'' listeningManager \<and>
   length (calls (snd (createVirtualInput ''synth'' listeningManager))) = 2"
proof -
  have a: "Map_has ''synth'' (virtualInputs listeningManager)"
    by (simp add: listeningManager_eval Map_has_def)
  have b: "Map_keys (virtualInputs listeningManager) = [''synth'']"
    by (simp add: listeningManager_eval Map_keys_def)
  show ?thesis
    using a b createVirtualInput_replaces [of "''synth''" listeningManager]
    by (simp add: listeningManager_eval)
qed

text \<open>
  A second call for a target whose device has a listener: the registry changes (the
  listener is gone with the old device), the discovery listener is called a second time,
  and the device returned is not the one that was registered.
\<close>

theorem createVirtualInput_not_idempotent:
  "virtualInputs (snd (createVirtualInput ''synth'' listeningManager)) \<noteq> virtualInputs listeningManager \<and>
   discovered ''synth'' (calls listeningManager) = 1 \<and>
   discovered ''synth'' (calls (snd (createVirtualInput ''synth'' listeningManager))) = 2 \<and>
   Some (fst (createVirtualInput ''synth'' listeningManager)) \<noteq>
     getVirtualInput ''synth'' listeningManager"
  by (simp add: createVirtualInput_inputs createVirtualInput_calls createVirtualInput_fst
        listeningManager_eval getVirtualInput_def Map_get_def Map_set_def)
     (simp add: newInput_def createVirtualInput_def Let_def)

subsection \<open>The registry of virtual outputs\<close>

lemma createVirtualOutput_outputs:
  "virtualOutputs (snd (createVirtualOutput target s)) =
     Map_set target (newOutput target) (virtualOutputs s)"
  by (simp add: createVirtualOutput_def newOutput_def Let_def)

lemma createVirtualOutput_other:
  "virtualInputs (snd (createVirtualOutput target s)) = virtualInputs s"
  "stats (snd (createVirtualOutput target s)) = stats s"
  by (simp_all add: createVirtualOutput_def Let_def)

lemma fold_createVirtualOutput_outputs:
  "virtualOutputs (fold (\<lambda>target s'. snd (createVirtualOutput target s')) ts s) =
     fold (\<lambda>t m. Map_set t (newOutput t) m) ts (virtualOutputs s)"
  by (induction ts arbitrary: s) (simp_all add: createVirtualOutput_outputs)

lemma fold_createVirtualOutput_stats:
  "stats (fold (\<lambda>target s'. snd (createVirtualOutput target s')) ts s) = stats s"
  by (induction ts arbitrary: s) (simp_all add: createVirtualOutput_other)

lemma fold_createVirtualOutput_inputs:
  "virtualInputs (fold (\<lambda>target s'. snd (createVirtualOutput target s')) ts s) = virtualInputs s"
  by (induction ts arbitrary: s) (simp_all add: createVirtualOutput_other)

lemma handleConnectionStateChange_outputs:
  "virtualOutputs (handleConnectionStateChange state s) =
     (if state = ''connected''
      then fold (\<lambda>t m. Map_set t (newOutput t) m) defaultTargets (virtualOutputs s)
      else if state = ''disconnected'' \<or> state = ''failed'' then []
      else virtualOutputs s)"
  by (simp add: handleConnectionStateChange_def Let_def fold_createVirtualOutput_outputs
        split: option.splits)

lemma handleConnectionStateChange_inputs:
  "virtualInputs (handleConnectionStateChange state s) =
     (if state = ''disconnected'' \<or> state = ''failed'' then [] else virtualInputs s)"
  by (simp add: handleConnectionStateChange_def Let_def fold_createVirtualOutput_inputs
        split: option.splits)

lemma handleConnectionStateChange_stats:
  "stats (handleConnectionStateChange state s) = stats s"
  by (simp add: handleConnectionStateChange_def Let_def fold_createVirtualOutput_stats
        split: option.splits)

lemma connect_outputs:
  "outputsInv s \<Longrightarrow>
     virtualOutputs (handleConnectionStateChange ''connected'' s) = connectedOutputs"
  by (auto simp add: handleConnectionStateChange_outputs outputsInv_def connectedOutputs_def
        defaultTargets_def Map_set_def)

lemma handleConnectionStateChange_inv:
  assumes "outputsInv s"
  shows "outputsInv (handleConnectionStateChange state s)"
proof (cases "state = ''connected''")
  case True
  with assms show ?thesis by (simp add: connect_outputs outputsInv_def)
next
  case False
  with assms show ?thesis by (simp add: handleConnectionStateChange_outputs outputsInv_def)
qed

lemma fold_handleConnectionStateChange_inv:
  "outputsInv s \<Longrightarrow> outputsInv (fold handleConnectionStateChange reports s)"
  by (induction reports arbitrary: s) (simp_all add: handleConnectionStateChange_inv)

lemma handleMIDIMessage_outputs: "virtualOutputs (handleMIDIMessage m s) = virtualOutputs s"
  by (simp add: handleMIDIMessage_def callGlobalHandler_def triggerVirtualInput_def
        ensureVirtualInput_def countMessage_def createVirtualInput_def Let_def
        split: option.splits)

lemma disconnect_outputs:
  "virtualOutputs (disconnect reports s) =
     (case connection s of
        Some c \<Rightarrow> virtualOutputs (fold handleConnectionStateChange reports s)
      | None \<Rightarrow> virtualOutputs s)"
  by (simp add: disconnect_def Let_def split: option.splits)

lemma step_inv:
  assumes "outputsInv s"
  shows "outputsInv (step op s)"
proof (cases op)
  case (HandleConnectionStateChange state)
  with assms show ?thesis by (simp add: handleConnectionStateChange_inv)
next
  case (Disconnect reports)
  from assms have "outputsInv (fold handleConnectionStateChange reports s)"
    by (rule fold_handleConnectionStateChange_inv)
  with assms Disconnect show ?thesis
    by (simp add: outputsInv_def disconnect_outputs split: option.splits)
next
  case (HandleMIDIMessage m)
  with assms show ?thesis by (simp add: outputsInv_def handleMIDIMessage_outputs)
qed (use assms in \<open>auto simp add: outputsInv_def initialize_def createVirtualInput_def Let_def
       Manager_sendMIDI_def split: option.splits\<close>)

lemma run_inv: "outputsInv s \<Longrightarrow> outputsInv (run ops s)"
  unfolding run_def by (induction ops arbitrary: s) (simp_all add: step_inv)

text \<open>
  Claim C2. After any history of a manager (any sequence of operations since its
  construction), a change of the connection state to \<open>connected\<close> leaves exactly four
  virtual outputs, whose targets are \<open>default\<close>, \<open>synth\<close>, \<open>control\<close> and \<open>feedback\<close> in
  this order: this is what \<open>getVirtualOutputs()\<close> returns right afterwards.
\<close>

theorem connected_creates_four_outputs:
  "map vo_target
     (getVirtualOutputs (handleConnectionStateChange ''connected'' (run ops WebRTCMIDIManager)))
     = [''default'', ''synth'', ''control'', ''feedback''] \<and>
   length
     (getVirtualOutputs (handleConnectionStateChange ''connected'' (run ops WebRTCMIDIManager)))
     = 4"
proof -
  have "outputsInv WebRTCMIDIManager"
    by (simp add: outputsInv_def WebRTCMIDIManager_def)
  then have "outputsInv (run ops WebRTCMIDIManager)"
    by (rule run_inv)
  then have "virtualOutputs (handleConnectionStateChange ''connected'' (run ops WebRTCMIDIManager))
               = connectedOutputs"
    by (rule connect_outputs)
  then show ?thesis
    by (simp add: getVirtualOutputs_def Map_values_def connectedOutputs_def defaultTargets_def
          newOutput_def createVirtualOutput_def Let_def)
qed

theorem connected_creates_four_outputs_witness:
  "map vo_target
     (getVirtualOutputs (handleConnectionStateChange ''connected''
        (run [Initialize, HandleConnectionStateChange ''connected'', Disconnect closeReports, Initialize]
           WebRTCMIDIManager)))
     = [''default'', ''synth'', ''control'', ''feedback'']"
  using connected_creates_four_outputs
    [of "[Initialize, HandleConnectionStateChange ''connected'', Disconnect closeReports, Initialize]"]
  by simp

text \<open>The two state changes that clear the registries do clear both of them.\<close>

lemma handleConnectionStateChange_clears:
  "state = ''disconnected'' \<or> state = ''failed'' \<Longrightarrow>
     getVirtualInputs (handleConnectionStateChange state s) = [] \<and>
     getVirtualOutputs (handleConnectionStateChange state s) = []"
  by (auto simp add: getVirtualInputs_def getVirtualOutputs_def Map_values_def
        handleConnectionStateChange_inputs handleConnectionStateChange_outputs)

lemma disconnect_inputs: "getVirtualInputs (disconnect reports s) = []"
  by (simp add: getVirtualInputs_def Map_values_def disconnect_def Let_def)

text \<open>
  \<open>disconnect()\<close> keeps the outputs unless \<open>connection.close()\<close> itself reports a state
  that creates or clears them.
\<close>

lemma disconnect_outputs_kept:
  "''connected'' \<notin> set reports \<Longrightarrow> ''disconnected'' \<notin> set reports \<Longrightarrow>
   ''failed'' \<notin> set reports \<Longrightarrow>
     virtualOutputs (disconnect reports s) = virtualOutputs s"
proof -
  assume "''connected'' \<notin> set reports" "''disconnected'' \<notin> set reports" "''failed'' \<notin> set reports"
  then have "virtualOutputs (fold handleConnectionStateChange reports s) = virtualOutputs s"
    by (induction reports arbitrary: s) (auto simp add: handleConnectionStateChange_outputs)
  then show ?thesis by (simp add: disconnect_outputs split: option.splits)
qed

lemma connectedManager_outputs: "virtualOutputs connectedManager = connectedOutputs"
  by (simp add: connectedManager_def run_def initialize_def WebRTCMIDIManager_def
        handleConnectionStateChange_outputs connectedOutputs_def defaultTargets_def Map_set_def)

text \<open>
  Claim C3 at a connected manager: after \<open>disconnect()\<close> the virtual inputs are gone but
  \<open>getVirtualOutputs()\<close> still returns the four outputs, whether \<open>connection.close()\<close>
  reports \<open>closed\<close> or nothing.
\<close>

theorem disconnect_keeps_outputs:
  "map vo_target (getVirtualOutputs (disconnect closeReports connectedManager))
     = [''default'', ''synth'', ''control'', ''feedback''] \<and>
   map vo_target (getVirtualOutputs (disconnect [] connectedManager))
     = [''default'', ''synth'', ''control'', ''feedback''] \<and>
   getVirtualInputs (disconnect closeReports connectedManager) = []"
  by (simp add: getVirtualOutputs_def Map_values_def disconnect_outputs_kept closeReports_def
        disconnect_inputs connectedManager_outputs connectedOutputs_def defaultTargets_def
        newOutput_def createVirtualOutput_def Let_def)

subsection \<open>Statistics\<close>

lemma handleMIDIMessage_stats:
  "stats (handleMIDIMessage m s) =
     \<lparr> messagesReceived = messagesReceived (stats s) + 1,
       bytesReceived = bytesReceived (stats s) + length (msg_data m),
       latency = msg_latency m \<rparr>"
  by (simp add: handleMIDIMessage_def callGlobalHandler_def triggerVirtualInput_def
        ensureVirtualInput_def countMessage_def createVirtualInput_def Let_def
        split: option.splits)

lemma fold_handleConnectionStateChange_stats:
  "stats (fold handleConnectionStateChange reports s) = stats s"
  by (induction reports arbitrary: s) (simp_all add: handleConnectionStateChange_stats)

lemma disconnect_stats: "stats (disconnect reports s) = stats s"
  by (simp add: disconnect_def Let_def fold_handleConnectionStateChange_stats
        split: option.splits)

lemma step_stats:
  "stats (step op s) =
     (case op of HandleMIDIMessage m \<Rightarrow> stats (handleMIDIMessage m s) | _ \<Rightarrow> stats s)"
  by (cases op)
     (simp_all add: handleConnectionStateChange_stats disconnect_stats initialize_def
        createVirtualInput_def Let_def Manager_sendMIDI_def split: option.splits)

lemma run_stats:
  "messagesReceived (stats (run ops s)) = messagesReceived (stats s) + length (messagesOf ops) \<and>
   bytesReceived (stats (run ops s)) =
     bytesReceived (stats s) + sum_list (map (\<lambda>m. length (msg_data m)) (messagesOf ops)) \<and>
   latency (stats (run ops s)) =
     (if messagesOf ops = [] then latency (stats s) else msg_latency (last (messagesOf ops)))"
  unfolding run_def
proof (induction ops arbitrary: s)
  case Nil
  show ?case by simp
next
  case (Cons op ops)
  note IH = Cons.IH [of "step op s"]
  show ?case using IH
    by (cases op) (simp_all add: step_stats handleMIDIMessage_stats del: step.simps)
qed

text \<open>
  Claim C8. One inbound message adds 1 to \<open>messagesReceived\<close> and the length of its
  payload to \<open>bytesReceived\<close>, and puts its latency in \<open>latency\<close>. \<open>disconnect()\<close> and a
  change of the connection state leave the statistics as they are. Over any sequence of
  operations the counters grow by the number of inbound messages and by the sum of their
  payload lengths, so they never go down and are never reset, and \<open>latency\<close> is that of
  the last inbound message. A new manager starts with all three at zero.
\<close>

theorem stats_count_messages:
  "stats (handleMIDIMessage m s) =
     \<lparr> messagesReceived = messagesReceived (stats s) + 1,
       bytesReceived = bytesReceived (stats s) + length (msg_data m),
       latency = msg_latency m \<rparr> \<and>
   stats (disconnect reports s) = stats s \<and>
   stats (handleConnectionStateChange state s) = stats s \<and>
   messagesReceived (stats (run ops s)) = messagesReceived (stats s) + length (messagesOf ops) \<and>
   bytesReceived (stats (run ops s)) =
     bytesReceived (stats s) + sum_list (map (\<lambda>m. length (msg_data m)) (messagesOf ops)) \<and>
   latency (stats (run ops s)) =
     (if messagesOf ops = [] then latency (stats s) else msg_latency (last (messagesOf ops))) \<and>
   stats WebRTCMIDIManager = \<lparr> messagesReceived = 0, bytesReceived = 0, latency = 0 \<rparr>"
  using run_stats [of ops s]
  by (simp add: handleMIDIMessage_stats disconnect_stats handleConnectionStateChange_stats
        WebRTCMIDIManager_def)

theorem stats_count_messages_witness:
  "stats (run (map HandleMIDIMessage inbound @ [Disconnect closeReports, HandleConnectionStateChange ''failed''])
       WebRTCMIDIManager) = \<lparr> messagesReceived = 3, bytesReceived = 9, latency = 4 \<rparr>"
proof -
  have m: "messagesOf (map HandleMIDIMessage inbound @ [Disconnect closeReports, HandleConnectionStateChange ''failed'']) = inbound"
    by (simp add: inbound_def)
  have z: "stats WebRTCMIDIManager = \<lparr> messagesReceived = 0, bytesReceived = 0, latency = 0 \<rparr>"
    by (simp add: WebRTCMIDIManager_def)
  have "stats (run (map HandleMIDIMessage inbound @ [Disconnect closeReports, HandleConnectionStateChange ''failed''])
       WebRTCMIDIManager) = \<lparr> messagesReceived = 3, bytesReceived = 9, latency = 4 \<rparr>"
    apply (rule stats.equality)
    using stats_count_messages
      [of _ WebRTCMIDIManager _ _ "map HandleMIDIMessage inbound @ [Disconnect closeReports, HandleConnectionStateChange ''failed'']"]
    by (simp_all add: m z) (simp_all add: inbound_def)
  then show ?thesis .
qed

subsection \<open>Sending\<close>

text \<open>
  Claim C9. \<open>WebRTCMIDIManager.sendMIDI\<close> returns false, and hands nothing to the
  connection, when there is no connection or the connection is not connected; otherwise
  it returns true and has handed over exactly one envelope. \<open>sendMIDItoRtpMidi\<close> returns
  false when RTP-MIDI is not enabled, when there is no session, and when \<open>sendMessage\<close>
  throws; the exception does not leave the function. It returns true in the remaining
  case.
\<close>

theorem send_failures_are_booleans:
  "fst (Manager_sendMIDI now data timestamp arg s) =
     (case connection s of None \<Rightarrow> False | Some c \<Rightarrow> conn_isConnected c) \<and>
   (if fst (Manager_sendMIDI now data timestamp arg s)
    then \<exists>c. connection s = Some c \<and>
           snd (Manager_sendMIDI now data timestamp arg s) =
             s\<lparr> connection := Some (c\<lparr> conn_sent := conn_sent c @
                  [(toUint8Array data,
                    (case timestamp of None \<Rightarrow> now | Some t \<Rightarrow> if t = 0 then now else t),
                    defaultArg arg)] \<rparr>) \<rparr>
    else snd (Manager_sendMIDI now data timestamp arg s) = s) \<and>
   fst (sendMIDItoRtpMidi e throws d) =
     (rtpMidiEnabled e \<and> rtpMidiSession e \<noteq> None \<and> \<not> throws) \<and>
   (rtpMidiEnabled e \<and> rtpMidiSession e \<noteq> None \<or> snd (sendMIDItoRtpMidi e throws d) = [])"
  by (auto simp add: Manager_sendMIDI_def sendMIDItoRtpMidi_def connection_sendMIDI_def Let_def
        split: option.splits)

lemma connectedManager_connection:
  "connection connectedManager = Some \<lparr> conn_isConnected = True, conn_sent = [] \<rparr>"
  by (simp add: connectedManager_def run_def initialize_def WebRTCMIDIManager_def
        handleConnectionStateChange_def Let_def createVirtualOutput_def defaultTargets_def)

theorem send_failures_are_booleans_witness:
  "fst (Manager_sendMIDI 7 (Array [144, 60, 127]) None (Some ''synth'') connectedManager) \<and>
   connection (snd (Manager_sendMIDI 7 (Array [144, 60, 127]) None (Some ''synth'') connectedManager)) =
     Some \<lparr> conn_isConnected = True, conn_sent = [([0x90, 0x3C, 0x7F], 7, ''synth'')] \<rparr> \<and>
   \<not> fst (Manager_sendMIDI 7 (Array [144, 60, 127]) None (Some ''synth'') WebRTCMIDIManager) \<and>
   snd (Manager_sendMIDI 7 (Array [144, 60, 127]) None (Some ''synth'') WebRTCMIDIManager) =
     WebRTCMIDIManager \<and>
   \<not> fst (sendMIDItoRtpMidi defaultBridge True noteOn) \<and>
   fst (sendMIDItoRtpMidi defaultBridge False noteOn)"
proof -
  have a: "connection WebRTCMIDIManager = None"
    by (simp add: WebRTCMIDIManager_def)
  have b: "rtpMidiEnabled defaultBridge \<and> rtpMidiSession defaultBridge \<noteq> None"
    by (simp add: defaultBridge_def ElectronMIDIRTC_def)
  show ?thesis
    using a b connectedManager_connection
      send_failures_are_booleans [of 7 "Array [144, 60, 127]" None "Some ''synth''" connectedManager
        defaultBridge True noteOn]
      send_failures_are_booleans [of 7 "Array [144, 60, 127]" None "Some ''synth''" WebRTCMIDIManager
        defaultBridge False noteOn]
    by (auto simp add: defaultArg_def)
qed

end
